theory Spec2Isabelle
  imports Complex_Main "HOL-Library.Word" "HOL-Library.Multiset"
begin

section \<open>Data model\<close>

text \<open>
  A JavaScript string is a sequence of UTF-16 code units; a \<open>Buffer\<close> is a sequence of
  bytes. The fixed texts of the program (log lines, response messages, error
  messages) are written as HOL strings, so that they can be compared with the source.
\<close>

type_synonym js_string = "16 word list"
type_synonym bytes = "8 word list"

definition js :: "string \<Rightarrow> js_string" where
  "js s = map (\<lambda>c. of_nat (of_char c)) s"

text \<open>The Prisma schema: the two enums and the \<open>Client\<close> and \<open>Message\<close> models.
  Optional columns are options, \<open>DateTime\<close> is a number of milliseconds.\<close>

datatype ClientStatus = INITIALIZING | CONNECTED | DISCONNECTED | LOGOUT

datatype MessageStatus = PENDING | SENT | FAILED

record Client =
  client_id :: js_string
  client_userId :: js_string
  client_session :: "js_string option"
  client_status :: ClientStatus
  client_lastActive :: "int option"
  client_lastQrCode :: "js_string option"
  client_createdAt :: int
  client_updatedAt :: int

record Message =
  msg_id :: js_string
  msg_clientId :: js_string
  msg_number :: js_string
  msg_content :: js_string
  msg_status :: MessageStatus
  msg_mediaUrl :: "js_string option"
  msg_error :: "js_string option"
  msg_createdAt :: int

text \<open>A thrown JavaScript error: a plain \<open>Error\<close> or multer's \<open>MulterError\<close>, with its
  message.\<close>

datatype js_error = Error string | MulterError string

fun error_message :: "js_error \<Rightarrow> string" where
  "error_message (Error m) = m"
| "error_message (MulterError m) = m"

record pagination =
  page :: int
  limit :: int
  total :: int
  totalPages :: int

text \<open>One constructor for each shape of JSON body the three handlers send.\<close>

datatype json_body =
    Failure string
      \<comment> \<open>\<open>{success: false, message}\<close>\<close>
  | Failure_error string js_error
      \<comment> \<open>\<open>{success: false, message, error: error}\<close>\<close>
  | Failure_message string string
      \<comment> \<open>\<open>{success: false, message, error: error.message}\<close>\<close>
  | Batch_accepted nat "js_string list"
      \<comment> \<open>\<open>{success: true, message: `Processing messages for ${n} recipients`, messageIds}\<close>\<close>
  | Message_page "Message list" pagination
      \<comment> \<open>\<open>{success: true, data: {messages, pagination}}\<close>\<close>
  | Message_data Message
      \<comment> \<open>\<open>{success: true, data: message}\<close>\<close>

record response =
  status :: nat
  body :: json_body

text \<open>What a handler does besides computing, in the order in which it does it.\<close>

datatype effect =
    Log_error string
  | Log_error_with string js_error
  | Fetch_call js_string
  | Upload_call bytes
  | Create_messages "Message list"
  | On_progress
  | Process_batch "Message list"
  | Respond response

fun responses :: "effect list \<Rightarrow> response list" where
  "responses [] = []"
| "responses (Respond r # es) = r # responses es"
| "responses (e # es) = responses es"

fun upload_calls :: "effect list \<Rightarrow> bytes list" where
  "upload_calls [] = []"
| "upload_calls (Upload_call b # es) = b # upload_calls es"
| "upload_calls (e # es) = upload_calls es"

fun fetch_calls :: "effect list \<Rightarrow> js_string list" where
  "fetch_calls [] = []"
| "fetch_calls (Fetch_call u # es) = u # fetch_calls es"
| "fetch_calls (e # es) = fetch_calls es"

fun created :: "effect list \<Rightarrow> Message list" where
  "created [] = []"
| "created (Create_messages ms # es) = ms @ created es"
| "created (e # es) = created es"

section \<open>Collaborators\<close>

text \<open>
  The runtime handle of a session. \<open>processBatch\<close> returns a promise: \<open>None\<close> when it
  is fulfilled, \<open>Some e\<close> when it is rejected with \<open>e\<close>.
\<close>

record WhatsAppInstance =
  processBatch :: "Message list \<Rightarrow> js_error option"

text \<open>The result of \<open>fetch\<close>: a thrown error, or a response with its \<open>ok\<close> flag and
  its body.\<close>

datatype fetch_result = Fetch_failed js_error | Fetch_response bool bytes

text \<open>
  Everything the handlers read from outside: the two tables, the registry of runtime
  handles (\<open>clientService.getWhatsAppInstance\<close>), \<open>fetch\<close>, the two functions of
  \<open>cloudinary.util\<close>, the identifiers the database will generate next, its clock, and
  the message of the error Prisma throws for a \<open>skip\<close> and a \<open>take\<close> it rejects.
\<close>

record env =
  clients :: "Client list"
  messages :: "Message list"
  getWhatsAppInstance :: "js_string \<Rightarrow> WhatsAppInstance option"
  fetch :: "js_string \<Rightarrow> fetch_result"
  uploadToCloudinary :: "bytes \<Rightarrow> js_error + js_string"
  getOptimizedUrl :: "js_string \<Rightarrow> js_string"
  uuid :: "nat \<Rightarrow> js_string"
  now :: int
  prismaMessage :: "int \<Rightarrow> int \<Rightarrow> string"

text \<open>
  Left out of the model: failures of the database calls (the catch-all of each handler
  would answer 500), form fields that are not strings, and file parts under another
  field name than \<open>media\<close>.
\<close>

text \<open>What a handler leaves behind: the \<open>Message\<close> table and the effects, in order.\<close>

record outcome =
  db_messages :: "Message list"
  trace :: "effect list"

section \<open>The upload middleware\<close>

record file_part =
  mimetype :: js_string
  buffer :: bytes

definition allowedMimes :: "js_string list" where
  "allowedMimes =
     [js ''image/jpeg'', js ''image/png'', js ''image/gif'', js ''application/pdf'']"

text \<open>\<open>fileFilter\<close>: \<open>None\<close> for \<open>cb(null, true)\<close>, \<open>Some e\<close> for \<open>cb(e)\<close>.\<close>

definition fileFilter :: "file_part \<Rightarrow> js_error option" where
  "fileFilter file =
     (if mimetype file \<in> set allowedMimes then None
      else Some (Error ''Invalid file type. Only images and PDF are allowed.''))"

definition fileSize :: nat where
  "fileSize = 16 * 1024 * 1024"

text \<open>
  \<open>multer({storage, fileFilter, limits}).single("media")\<close> on the file part of the
  request, if there is one: the filter sees the part's header first, then the body is
  read, and a body that reaches \<open>fileSize\<close> bytes is a \<open>MulterError\<close>: the limit is
  reported as soon as the body fills it, so a body of exactly \<open>fileSize\<close> bytes is
  rejected too. \<open>Inr\<close> carries \<open>req.file\<close>.
\<close>

definition upload :: "file_part option \<Rightarrow> js_error + file_part option" where
  "upload part =
     (case part of
        None \<Rightarrow> Inr None
      | Some file \<Rightarrow>
          (case fileFilter file of
             Some err \<Rightarrow> Inl err
           | None \<Rightarrow>
               if fileSize \<le> length (buffer file) then Inl (MulterError ''File too large'')
               else Inr (Some file)))"

text \<open>The promise around \<open>upload\<close> (lines 38-47): a rejection is thrown by \<open>await\<close>.\<close>

definition upload_promise :: "file_part option \<Rightarrow> js_error + file_part option" where
  "upload_promise part =
     (case upload part of
        Inl (MulterError m) \<Rightarrow> Inl (Error (''Upload error: '' @ m))
      | Inl (Error m) \<Rightarrow> Inl (Error m)
      | Inr file \<Rightarrow> Inr file)"

section \<open>Parsing the form\<close>

text \<open>\<open>String.prototype.split(",")\<close>.\<close>

fun split_comma :: "js_string \<Rightarrow> js_string list" where
  "split_comma [] = [[]]"
| "split_comma (c # cs) =
     (if c = 44 then [] # split_comma cs
      else (case split_comma cs of
              [] \<Rightarrow> [[c]]
            | p # ps \<Rightarrow> (c # p) # ps))"

text \<open>\<open>(req.body.numbers as string)?.split(",").filter(Boolean) || []\<close>\<close>

definition parse_numbers :: "js_string option \<Rightarrow> js_string list" where
  "parse_numbers numbers =
     (case numbers of
        None \<Rightarrow> []
      | Some s \<Rightarrow> filter (\<lambda>n. n \<noteq> []) (split_comma s))"

text \<open>The code units \<open>String.prototype.trim\<close> removes: ECMAScript's WhiteSpace and
  LineTerminator.\<close>

definition is_white_space :: "16 word \<Rightarrow> bool" where
  "is_white_space c \<longleftrightarrow>
     c \<in> set [0x0009, 0x000A, 0x000B, 0x000C, 0x000D, 0x0020, 0x00A0, 0x1680,
              0x2000, 0x2001, 0x2002, 0x2003, 0x2004, 0x2005, 0x2006, 0x2007,
              0x2008, 0x2009, 0x200A, 0x2028, 0x2029, 0x202F, 0x205F, 0x3000, 0xFEFF]"

definition trim :: "js_string \<Rightarrow> js_string" where
  "trim s = rev (dropWhile is_white_space (rev (dropWhile is_white_space s)))"

text \<open>\<open>String(req.body.content || "").trim()\<close>\<close>

definition parse_content :: "js_string option \<Rightarrow> js_string" where
  "parse_content content = trim (case content of None \<Rightarrow> [] | Some s \<Rightarrow> s)"

text \<open>Lines 61-68: the uploaded file first, the URL only without a file and when it
  is truthy.\<close>

datatype media = Buffer bytes | Url js_string

definition select_media :: "file_part option \<Rightarrow> js_string option \<Rightarrow> media option" where
  "select_media file mediaUrl =
     (case file of
        Some f \<Rightarrow> Some (Buffer (buffer f))
      | None \<Rightarrow>
          (case mediaUrl of
             None \<Rightarrow> None
           | Some u \<Rightarrow> if u \<noteq> [] then Some (Url u) else None))"

section \<open>Storage\<close>

text \<open>\<open>prisma.client.findFirst({where: {userId}})\<close>\<close>

definition findFirst_client :: "env \<Rightarrow> js_string \<Rightarrow> Client option" where
  "findFirst_client env userId = find (\<lambda>c. client_userId c = userId) (clients env)"

text \<open>
  Modelled from the spec: \<open>messageRepository.createMessages\<close>, whose file
  (\<open>repositories/message.repository\<close>) is not among the sources. The spec (4.2): one
  record per recipient, in the order of the recipients, all sharing content and media
  URL, each with a generated id, all PENDING. The defaults of the other columns are
  those of the schema.
\<close>

definition createMessages ::
  "env \<Rightarrow> js_string \<Rightarrow> js_string list \<Rightarrow> js_string \<Rightarrow> js_string option \<Rightarrow> Message list" where
  "createMessages env clientId numbers content media =
     map (\<lambda>(i, number).
            \<lparr>msg_id = uuid env i, msg_clientId = clientId, msg_number = number,
             msg_content = content, msg_status = PENDING, msg_mediaUrl = media,
             msg_error = None, msg_createdAt = now env\<rparr>)
         (enumerate 0 numbers)"

section \<open>sendBatchMessages\<close>

record batch_request =
  req_user :: "js_string option"
  req_media_part :: "file_part option"
  body_numbers :: "js_string option"
  body_content :: "js_string option"
  body_mediaUrl :: "js_string option"

text \<open>\<open>res.status(code).json(b)\<close> and \<open>return\<close>, after the effects \<open>es\<close>, with the
  table as it was.\<close>

definition reply :: "env \<Rightarrow> effect list \<Rightarrow> nat \<Rightarrow> json_body \<Rightarrow> outcome" where
  "reply env es code b =
     \<lparr>db_messages = messages env, trace = es @ [Respond \<lparr>status = code, body = b\<rparr>]\<rparr>"

text \<open>
  Lines 106-118, the \<open>try\<close> block: the calls made, and the URL or the error thrown.
  A \<open>Buffer\<close> is truthy whatever its length, and a \<open>Url\<close> is never empty.
\<close>

definition resolve_media :: "env \<Rightarrow> media option \<Rightarrow> effect list \<times> (js_error + js_string option)" where
  "resolve_media env media =
     (case media of
        None \<Rightarrow> ([], Inr None)
      | Some (Buffer b) \<Rightarrow>
          ([Upload_call b],
           (case uploadToCloudinary env b of
              Inl err \<Rightarrow> Inl err
            | Inr public_id \<Rightarrow> Inr (Some (getOptimizedUrl env public_id))))
      | Some (Url u) \<Rightarrow>
          (case fetch env u of
             Fetch_failed err \<Rightarrow> ([Fetch_call u], Inl err)
           | Fetch_response ok content \<Rightarrow>
               if \<not> ok then ([Fetch_call u], Inl (Error ''Failed to fetch media from URL''))
               else
                 ([Fetch_call u, Upload_call content],
                  (case uploadToCloudinary env content of
                     Inl err \<Rightarrow> Inl err
                   | Inr public_id \<Rightarrow> Inr (Some (getOptimizedUrl env public_id))))))"

text \<open>
  Lines 130-155. The callback of \<open>.catch\<close> runs when the promise of \<open>processBatch\<close>
  is rejected, which is after the synchronous rest of the handler, that is, after
  \<open>res.status(200).json\<close>.
\<close>

definition dispatch ::
  "env \<Rightarrow> WhatsAppInstance \<Rightarrow> js_string \<Rightarrow> js_string list \<Rightarrow> js_string \<Rightarrow> js_string option
     \<Rightarrow> effect list \<Rightarrow> outcome" where
  "dispatch env whatsappInstance clientId numbers content cloudinaryUrl es =
     (let messageRecords = createMessages env clientId numbers content cloudinaryUrl
      in \<lparr>db_messages = messages env @ messageRecords,
          trace =
            es @
            [Create_messages messageRecords,
             On_progress,
             Process_batch messageRecords,
             Respond \<lparr>status = 200,
                      body = Batch_accepted (length numbers) (map msg_id messageRecords)\<rparr>] @
            (case processBatch whatsappInstance messageRecords of
               None \<Rightarrow> []
             | Some error \<Rightarrow> [Log_error_with ''Message processing error:'' error])\<rparr>)"

text \<open>Lines 82-128.\<close>

definition with_session ::
  "env \<Rightarrow> js_string \<Rightarrow> js_string list \<Rightarrow> js_string \<Rightarrow> media option \<Rightarrow> outcome" where
  "with_session env userId numbers content media =
     (case findFirst_client env userId of
        None \<Rightarrow> reply env [] 400 (Failure ''WhatsApp client not connected'')
      | Some existingClient \<Rightarrow>
          if client_status existingClient \<noteq> CONNECTED
          then reply env [] 400 (Failure ''WhatsApp client not connected'')
          else
            (case getWhatsAppInstance env (client_id existingClient) of
               None \<Rightarrow>
                 reply env [Log_error ''WhatsApp client not initialized''] 400
                   (Failure ''WhatsApp client not initialized'')
             | Some whatsappInstance \<Rightarrow>
                 (case resolve_media env media of
                    (es, Inl error) \<Rightarrow>
                      reply env (es @ [Log_error_with ''Failed to process media:'' error]) 400
                        (Failure_error ''Failed to process media'' error)
                  | (es, Inr cloudinaryUrl) \<Rightarrow>
                      dispatch env whatsappInstance (client_id existingClient)
                        numbers content cloudinaryUrl es)))"

definition invalid_format :: string where
  "invalid_format = ''Invalid format: numbers array is required and content cannot be empty''"

text \<open>Lines 36-80 and the \<open>catch\<close> of lines 156-163.\<close>

definition sendBatchMessages :: "env \<Rightarrow> batch_request \<Rightarrow> outcome" where
  "sendBatchMessages env req =
     (case upload_promise (req_media_part req) of
        Inl error \<Rightarrow>
          reply env [Log_error (''Send batch messages error: '' @ error_message error)] 500
            (Failure_message ''Failed to send messages'' (error_message error))
      | Inr file \<Rightarrow>
          (case req_user req of
             None \<Rightarrow> reply env [] 401 (Failure ''Unauthorized'')
           | Some userId \<Rightarrow>
               if userId = [] then reply env [] 401 (Failure ''Unauthorized'')
               else
                 (let numbers = parse_numbers (body_numbers req);
                      content = parse_content (body_content req);
                      media = select_media file (body_mediaUrl req)
                  in if numbers = [] \<or> content = []
                     then reply env [Log_error invalid_format] 400 (Failure invalid_format)
                     else with_session env userId numbers content media)))"

section \<open>getMessages\<close>

text \<open>\<open>query_page\<close> and \<open>query_limit\<close> are the results of \<open>parseInt\<close> on the two query
  parameters, \<open>None\<close> for \<open>NaN\<close> (the infinite result of an overlong digit string is
  left out); \<open>query_status\<close> has the type the handler casts it to.\<close>

record list_request =
  list_user :: "js_string option"
  query_page :: "int option"
  query_limit :: "int option"
  query_status :: "MessageStatus option"

text \<open>\<open>parseInt(s) || d\<close>: \<open>NaN\<close> and \<open>0\<close> are falsy.\<close>

definition or_default :: "int option \<Rightarrow> int \<Rightarrow> int" where
  "or_default v d = (case v of None \<Rightarrow> d | Some n \<Rightarrow> if n = 0 then d else n)"

text \<open>
  The results of \<open>parseInt\<close> are JavaScript numbers, that is doubles, here integers
  that are doubles; \<open>-\<close> and \<open>*\<close> on them give the double nearest to the exact
  result, ties to the even mantissa. \<open>double_ulp 1 n\<close> is the distance between the
  doubles around \<open>n\<close>: the least power of two \<open>q\<close> with \<open>\<bar>n\<bar> < 2^53 * q\<close>
  (\<open>2^53 = 9007199254740992\<close>). Results beyond the largest double are not modelled.
\<close>

function double_ulp :: "int \<Rightarrow> int \<Rightarrow> int" where
  "double_ulp q n =
     (if q \<le> 0 \<or> \<bar>n\<bar> < 9007199254740992 * q then q else double_ulp (2 * q) n)"
  by pat_completeness auto
termination
  by (relation "measure (\<lambda>(q, n). nat (\<bar>n\<bar> - q))") auto

definition to_double :: "int \<Rightarrow> int" where
  "to_double n =
     (let q = double_ulp 1 n; d = n div q; m = n mod q
      in if 2 * m < q then d * q
         else if q < 2 * m then (d + 1) * q
         else if even d then d * q else (d + 1) * q)"

text \<open>\<open>where: {clientId: client.id, ...(status && {status})}\<close>\<close>

definition where_message :: "js_string \<Rightarrow> MessageStatus option \<Rightarrow> Message \<Rightarrow> bool" where
  "where_message clientId st m \<longleftrightarrow>
     msg_clientId m = clientId \<and> (case st of None \<Rightarrow> True | Some s \<Rightarrow> msg_status m = s)"

text \<open>\<open>orderBy: {createdAt: "desc"}\<close>; rows of equal creation time stay in the order
  of the table, where the database may choose any.\<close>

definition order_desc :: "Message list \<Rightarrow> Message list" where
  "order_desc ms = sort_key (\<lambda>m. - msg_createdAt m) ms"

text \<open>
  \<open>prisma.message.findMany({where, skip, take, orderBy})\<close>. Prisma rejects a negative
  \<open>skip\<close>, and a \<open>skip\<close> or a \<open>take\<close> that does not fit a signed 64-bit integer
  (\<open>2^63 = 9223372036854775808\<close>); it reads a negative \<open>take\<close> from the end of the
  ordered rows.
\<close>

definition findMany ::
  "env \<Rightarrow> js_string \<Rightarrow> MessageStatus option \<Rightarrow> int \<Rightarrow> int \<Rightarrow> js_error + Message list" where
  "findMany env clientId st skip tk =
     (let rows = order_desc (filter (where_message clientId st) (messages env))
      in if skip < 0 \<or> 9223372036854775808 \<le> skip \<or>
            tk < - 9223372036854775808 \<or> 9223372036854775808 \<le> tk
         then Inl (Error (prismaMessage env skip tk))
         else if 0 \<le> tk then Inr (take (nat tk) (drop (nat skip) rows))
         else Inr (rev (take (nat (- tk)) (drop (nat skip) (rev rows)))))"

text \<open>\<open>prisma.message.count({where})\<close>\<close>

definition count_messages :: "env \<Rightarrow> js_string \<Rightarrow> MessageStatus option \<Rightarrow> int" where
  "count_messages env clientId st = int (length (filter (where_message clientId st) (messages env)))"

text \<open>\<open>Math.ceil(total / limit)\<close> for \<open>limit \<noteq> 0\<close>, on integers: the rounding of the
  quotient does not change its ceiling for a total below \<open>2^53\<close>.\<close>

definition ceil_div :: "int \<Rightarrow> int \<Rightarrow> int" where
  "ceil_div a b = - ((- a) div b)"

definition getMessages :: "env \<Rightarrow> list_request \<Rightarrow> outcome" where
  "getMessages env req =
     (case list_user req of
        None \<Rightarrow> reply env [] 401 (Failure ''Unauthorized'')
      | Some userId \<Rightarrow>
          if userId = [] then reply env [] 401 (Failure ''Unauthorized'')
          else
            (let page = or_default (query_page req) 1;
                 limit = or_default (query_limit req) 10;
                 st = query_status req
             in (case findFirst_client env userId of
                   None \<Rightarrow> reply env [] 404 (Failure ''Client not found'')
                 | Some client \<Rightarrow>
                     (case findMany env (client_id client) st
                             (to_double (to_double (page - 1) * limit)) limit of
                        Inl error \<Rightarrow>
                          reply env [Log_error (''Get messages error: '' @ error_message error)] 500
                            (Failure_message ''Failed to get messages'' (error_message error))
                      | Inr msgs \<Rightarrow>
                          (let total = count_messages env (client_id client) st
                           in reply env [] 200
                                (Message_page msgs
                                   \<lparr>page = page, limit = limit, total = total,
                                    totalPages = ceil_div total limit\<rparr>))))))"

section \<open>getMessageStatus\<close>

record status_request =
  status_user :: "js_string option"
  params_id :: js_string

text \<open>\<open>prisma.message.findFirst({where: {id: messageId, client: {userId}}})\<close>\<close>

definition findFirst_message :: "env \<Rightarrow> js_string \<Rightarrow> js_string \<Rightarrow> Message option" where
  "findFirst_message env messageId userId =
     find (\<lambda>m. msg_id m = messageId \<and>
                (\<exists>c \<in> set (clients env). client_id c = msg_clientId m \<and> client_userId c = userId))
          (messages env)"

definition getMessageStatus :: "env \<Rightarrow> status_request \<Rightarrow> outcome" where
  "getMessageStatus env req =
     (case status_user req of
        None \<Rightarrow> reply env [] 401 (Failure ''Unauthorized'')
      | Some userId \<Rightarrow>
          if userId = [] then reply env [] 401 (Failure ''Unauthorized'')
          else
            (case findFirst_message env (params_id req) userId of
               None \<Rightarrow> reply env [] 404 (Failure ''Message not found'')
             | Some message \<Rightarrow> reply env [] 200 (Message_data message)))"

section \<open>Conditions of the handler, and example data\<close>

text \<open>The negation of the guard of line 70.\<close>

definition valid_form :: "batch_request \<Rightarrow> bool" where
  "valid_form req \<longleftrightarrow>
     parse_numbers (body_numbers req) \<noteq> [] \<and> parse_content (body_content req) \<noteq> []"

text \<open>A connected session with a runtime handle, of user \<open>alice\<close>; a collaborator
  whose fetches are answered without success and whose uploads succeed; and the
  scenario of the spec: two recipients, the content \<open>Hello\<close>, no media.\<close>

definition demo_client :: Client where
  "demo_client =
     \<lparr>client_id = js ''c1'', client_userId = js ''alice'', client_session = None,
      client_status = CONNECTED, client_lastActive = None, client_lastQrCode = None,
      client_createdAt = 1, client_updatedAt = 1\<rparr>"

definition demo_instance :: WhatsAppInstance where
  "demo_instance = \<lparr>processBatch = (\<lambda>ms. None)\<rparr>"

definition demo_env :: env where
  "demo_env =
     \<lparr>clients = [demo_client], messages = [],
      getWhatsAppInstance = (\<lambda>c. if c = js ''c1'' then Some demo_instance else None),
      fetch = (\<lambda>u. Fetch_response False []),
      uploadToCloudinary = (\<lambda>b. Inr (js ''pid'')),
      getOptimizedUrl = (\<lambda>p. js ''https://cdn/'' @ p),
      uuid = (\<lambda>i. js ''m'' @ [of_nat i + 48]),
      now = 1000,
      prismaMessage = (\<lambda>skip tk. ''Invalid skip or take'')\<rparr>"

definition demo_request :: batch_request where
  "demo_request =
     \<lparr>req_user = Some (js ''alice''), req_media_part = None,
      body_numbers = Some (js ''1555000111,1555000222''),
      body_content = Some (js ''Hello''), body_mediaUrl = None\<rparr>"

text \<open>Two file parts, one of a type outside the allowed set; 25 messages of the demo
  session, created at the times 1 to 25; and a request for the second page of ten.\<close>

definition text_part :: file_part where
  "text_part = \<lparr>mimetype = js ''text/plain'', buffer = [1, 2, 3]\<rparr>"

definition png_part :: file_part where
  "png_part = \<lparr>mimetype = js ''image/png'', buffer = [1, 2, 3]\<rparr>"

definition demo_message_at :: "nat \<Rightarrow> Message" where
  "demo_message_at i =
     \<lparr>msg_id = js ''m'' @ [of_nat i], msg_clientId = js ''c1'',
      msg_number = js ''1555000111'', msg_content = js ''Hello'',
      msg_status = (if even i then SENT else PENDING), msg_mediaUrl = None,
      msg_error = None, msg_createdAt = int i\<rparr>"

definition demo_messages :: "Message list" where
  "demo_messages = map demo_message_at [1..<26]"

definition demo_list_request :: list_request where
  "demo_list_request =
     \<lparr>list_user = Some (js ''alice''), query_page = Some 2, query_limit = Some 10,
      query_status = None\<rparr>"

text \<open>Further requests and environments: a content of two spaces; the session
  disconnected; a media URL; a runtime handle whose \<open>processBatch\<close> is rejected; the
  records of the scenario; a second user with their own session; a file part of
  16 MiB and one byte; and a request with both a file and a media URL.\<close>

definition blank_request :: batch_request where
  "blank_request = demo_request\<lparr>body_content := Some (js ''  '')\<rparr>"

definition offline_env :: env where
  "offline_env = demo_env\<lparr>clients := [demo_client\<lparr>client_status := DISCONNECTED\<rparr>]\<rparr>"

definition url_request :: batch_request where
  "url_request = demo_request\<lparr>body_mediaUrl := Some (js ''http://x/a.png'')\<rparr>"

definition failing_instance :: WhatsAppInstance where
  "failing_instance = \<lparr>processBatch = (\<lambda>ms. Some (Error ''Session closed''))\<rparr>"

definition failing_env :: env where
  "failing_env =
     demo_env\<lparr>getWhatsAppInstance :=
                (\<lambda>c. if c = js ''c1'' then Some failing_instance else None)\<rparr>"

definition demo_records :: "Message list" where
  "demo_records =
     createMessages demo_env (js ''c1'') [js ''1555000111'', js ''1555000222''] (js ''Hello'') None"

definition bob_client :: Client where
  "bob_client = demo_client\<lparr>client_id := js ''c2'', client_userId := js ''bob''\<rparr>"

definition shared_env :: env where
  "shared_env = demo_env\<lparr>clients := [demo_client, bob_client], messages := demo_records\<rparr>"

definition oversize_part :: file_part where
  "oversize_part = \<lparr>mimetype = js ''image/png'', buffer = replicate 16777217 0\<rparr>"

definition oversize_request :: batch_request where
  "oversize_request = demo_request\<lparr>req_media_part := Some oversize_part\<rparr>"

definition rejected_request :: batch_request where
  "rejected_request = demo_request\<lparr>req_media_part := Some text_part\<rparr>"

definition paged_env :: env where
  "paged_env = demo_env\<lparr>messages := demo_messages\<rparr>"


definition rounded_offset_request :: list_request where
  "rounded_offset_request =
     demo_list_request\<lparr>query_page := Some 60247241210, query_limit := Some 153092023\<rparr>"

definition sent_list_request :: list_request where
  "sent_list_request = demo_list_request\<lparr>query_status := Some SENT\<rparr>"

definition both_request :: batch_request where
  "both_request =
     demo_request\<lparr>req_media_part := Some png_part,
                  body_mediaUrl := Some (js ''http://x/a.png'')\<rparr>"

section \<open>Lemmas about the handlers\<close>

lemma responses_append: "responses (xs @ ys) = responses xs @ responses ys"
  by (induction xs rule: responses.induct) simp_all

lemma upload_calls_append: "upload_calls (xs @ ys) = upload_calls xs @ upload_calls ys"
  by (induction xs rule: upload_calls.induct) simp_all

lemma fetch_calls_append: "fetch_calls (xs @ ys) = fetch_calls xs @ fetch_calls ys"
  by (induction xs rule: fetch_calls.induct) simp_all

lemma created_append: "created (xs @ ys) = created xs @ created ys"
  by (induction xs rule: created.induct) simp_all

lemmas trace_append = responses_append upload_calls_append fetch_calls_append created_append

lemma length_createMessages: "length (createMessages env c ns ct m) = length ns"
  by (simp add: createMessages_def)

lemma nth_createMessages:
  "i < length ns \<Longrightarrow>
   createMessages env c ns ct m ! i =
     \<lparr>msg_id = uuid env i, msg_clientId = c, msg_number = ns ! i, msg_content = ct,
      msg_status = PENDING, msg_mediaUrl = m, msg_error = None, msg_createdAt = now env\<rparr>"
  by (simp add: createMessages_def nth_enumerate_eq)

lemma resolve_media_quiet:
  "resolve_media env m = (es, r) \<Longrightarrow> responses es = [] \<and> created es = []"
  by (auto simp: resolve_media_def split: option.splits media.splits fetch_result.splits if_splits)

lemma reply_simps:
  "db_messages (reply env es code b) = messages env"
  "trace (reply env es code b) = es @ [Respond \<lparr>status = code, body = b\<rparr>]"
  by (simp_all add: reply_def)

lemma dispatch_simps:
  "db_messages (dispatch env inst c ns ct url es) = messages env @ createMessages env c ns ct url"
  "trace (dispatch env inst c ns ct url es) =
     es @ [Create_messages (createMessages env c ns ct url), On_progress,
           Process_batch (createMessages env c ns ct url),
           Respond \<lparr>status = 200,
                    body = Batch_accepted (length ns) (map msg_id (createMessages env c ns ct url))\<rparr>] @
     (case processBatch inst (createMessages env c ns ct url) of
        None \<Rightarrow> []
      | Some error \<Rightarrow> [Log_error_with ''Message processing error:'' error])"
  by (simp_all add: dispatch_def Let_def)

lemma sendBatchMessages_valid:
  assumes "upload_promise (req_media_part req) = Inr file"
    and "req_user req = Some userId" and "userId \<noteq> []"
    and "valid_form req"
  shows "sendBatchMessages env req =
           with_session env userId (parse_numbers (body_numbers req))
             (parse_content (body_content req)) (select_media file (body_mediaUrl req))"
  using assms by (simp add: sendBatchMessages_def valid_form_def Let_def)

lemma with_session_ready:
  assumes "findFirst_client env userId = Some c" and "client_status c = CONNECTED"
    and "getWhatsAppInstance env (client_id c) = Some inst"
    and "resolve_media env media = (es, Inr url)"
  shows "with_session env userId ns ct media = dispatch env inst (client_id c) ns ct url es"
  using assms by (simp add: with_session_def)

lemma with_session_cases [case_names not_connected not_initialized media_failed dispatched]:
  obtains
    (not_connected)
      "findFirst_client env userId = None \<or>
       (\<exists>c. findFirst_client env userId = Some c \<and> client_status c \<noteq> CONNECTED)"
      "with_session env userId ns ct media =
         reply env [] 400 (Failure ''WhatsApp client not connected'')"
  | (not_initialized) c where
      "findFirst_client env userId = Some c" "client_status c = CONNECTED"
      "getWhatsAppInstance env (client_id c) = None"
      "with_session env userId ns ct media =
         reply env [Log_error ''WhatsApp client not initialized''] 400
           (Failure ''WhatsApp client not initialized'')"
  | (media_failed) c inst es error where
      "findFirst_client env userId = Some c" "client_status c = CONNECTED"
      "getWhatsAppInstance env (client_id c) = Some inst"
      "resolve_media env media = (es, Inl error)"
      "with_session env userId ns ct media =
         reply env (es @ [Log_error_with ''Failed to process media:'' error]) 400
           (Failure_error ''Failed to process media'' error)"
  | (dispatched) c inst es url where
      "findFirst_client env userId = Some c" "client_status c = CONNECTED"
      "getWhatsAppInstance env (client_id c) = Some inst"
      "resolve_media env media = (es, Inr url)"
      "with_session env userId ns ct media = dispatch env inst (client_id c) ns ct url es"
proof (cases "findFirst_client env userId")
  case None
  then show ?thesis using not_connected by (simp add: with_session_def)
next
  case (Some c)
  show ?thesis
  proof (cases "client_status c = CONNECTED")
    case False
    with Some show ?thesis using not_connected by (simp add: with_session_def)
  next
    case True
    show ?thesis
    proof (cases "getWhatsAppInstance env (client_id c)")
      case None
      with Some True show ?thesis using not_initialized by (simp add: with_session_def)
    next
      case inst: (Some inst)
      obtain es r where res: "resolve_media env media = (es, r)"
        by (cases "resolve_media env media")
      show ?thesis
      proof (cases r)
        case (Inl error)
        with Some True inst res show ?thesis
          using media_failed by (simp add: with_session_def)
      next
        case (Inr url)
        with Some True inst res show ?thesis
          using dispatched by (simp add: with_session_def)
      qed
    qed
  qed
qed

lemma sendBatchMessages_cases [case_names upload_rejected unauthorized invalid checked]:
  obtains
    (upload_rejected) error where
      "upload_promise (req_media_part req) = Inl error"
      "sendBatchMessages env req =
         reply env [Log_error (''Send batch messages error: '' @ error_message error)] 500
           (Failure_message ''Failed to send messages'' (error_message error))"
  | (unauthorized) upl where
      "upload_promise (req_media_part req) = Inr upl"
      "req_user req = None \<or> req_user req = Some []"
      "sendBatchMessages env req = reply env [] 401 (Failure ''Unauthorized'')"
  | (invalid) upl userId where
      "upload_promise (req_media_part req) = Inr upl"
      "req_user req = Some userId" "userId \<noteq> []" "\<not> valid_form req"
      "sendBatchMessages env req = reply env [Log_error invalid_format] 400 (Failure invalid_format)"
  | (checked) upl userId where
      "upload_promise (req_media_part req) = Inr upl"
      "req_user req = Some userId" "userId \<noteq> []" "valid_form req"
      "sendBatchMessages env req =
         with_session env userId (parse_numbers (body_numbers req))
           (parse_content (body_content req)) (select_media upl (body_mediaUrl req))"
proof (cases "upload_promise (req_media_part req)")
  case (Inl error)
  then show ?thesis using upload_rejected by (simp add: sendBatchMessages_def)
next
  case (Inr upl)
  show ?thesis
  proof (cases "req_user req")
    case None
    with Inr show ?thesis using unauthorized by (simp add: sendBatchMessages_def)
  next
    case (Some userId)
    show ?thesis
    proof (cases "userId = []")
      case True
      with Inr Some show ?thesis using unauthorized by (simp add: sendBatchMessages_def)
    next
      case False
      show ?thesis
      proof (cases "valid_form req")
        case True
        with Inr Some False show ?thesis
          using checked sendBatchMessages_valid by blast
      next
        case invalid_form: False
        with Inr Some False show ?thesis
          using invalid by (simp add: sendBatchMessages_def valid_form_def Let_def)
      qed
    qed
  qed
qed


lemma trim_Nil_iff: "trim s = [] \<longleftrightarrow> list_all is_white_space s"
proof
  assume "trim s = []"
  then have "\<forall>c \<in> set (dropWhile is_white_space s). is_white_space c"
    by (simp add: trim_def dropWhile_eq_Nil_conv)
  then have "dropWhile is_white_space s = []"
    using hd_dropWhile [of is_white_space s] hd_in_set by blast
  then show "list_all is_white_space s"
    by (simp add: dropWhile_eq_Nil_conv list_all_iff)
next
  assume "list_all is_white_space s"
  then have d: "dropWhile is_white_space s = []"
    by (simp add: dropWhile_eq_Nil_conv list_all_iff)
  show "trim s = []"
    by (simp only: trim_def d rev.simps dropWhile.simps)
qed

lemma dispatch_projections:
  "responses es = [] \<Longrightarrow>
   responses (trace (dispatch env inst c ns ct url es)) =
     [\<lparr>status = 200,
       body = Batch_accepted (length ns) (map msg_id (createMessages env c ns ct url))\<rparr>]"
  "created es = [] \<Longrightarrow>
   created (trace (dispatch env inst c ns ct url es)) = createMessages env c ns ct url"
  "upload_calls (trace (dispatch env inst c ns ct url es)) = upload_calls es"
  "fetch_calls (trace (dispatch env inst c ns ct url es)) = fetch_calls es"
  by (simp_all add: dispatch_simps trace_append split: option.split)

lemma reply_projections:
  "responses es = [] \<Longrightarrow>
   responses (trace (reply env es code b)) = [\<lparr>status = code, body = b\<rparr>]"
  "created (trace (reply env es code b)) = created es"
  "upload_calls (trace (reply env es code b)) = upload_calls es"
  "fetch_calls (trace (reply env es code b)) = fetch_calls es"
  by (simp_all add: reply_simps trace_append)

lemma resolve_media_fetch:
  "resolve_media env m = (es, r) \<Longrightarrow> Fetch_call u \<in> set es \<Longrightarrow> m = Some (Url u)"
  by (auto simp: resolve_media_def split: option.splits media.splits fetch_result.splits if_splits)

lemma resolve_media_not_ok:
  "fetch env u = Fetch_response False content \<Longrightarrow>
   resolve_media env (Some (Url u)) =
     ([Fetch_call u], Inl (Error ''Failed to fetch media from URL''))"
  by (simp add: resolve_media_def)

lemma upload_promise_cases:
  "upload_promise None = Inr None"
  "upload_promise (Some f) =
     (if mimetype f \<notin> set allowedMimes
      then Inl (Error ''Invalid file type. Only images and PDF are allowed.'')
      else if fileSize \<le> length (buffer f) then Inl (Error ''Upload error: File too large'')
      else Inr (Some f))"
  by (simp_all add: upload_promise_def upload_def fileFilter_def)

lemma resolve_media_uploads:
  "resolve_media env m = (es, r) \<Longrightarrow> length (upload_calls es) \<le> 1"
  by (auto simp: resolve_media_def split: option.splits media.splits fetch_result.splits if_splits)

lemma resolve_media_Buffer:
  "resolve_media env (Some (Buffer b)) = (es, r) \<Longrightarrow>
   es = [Upload_call b] \<and>
   (\<forall>url. r = Inr url \<longrightarrow>
      (\<exists>public_id. uploadToCloudinary env b = Inr public_id \<and>
                   url = Some (getOptimizedUrl env public_id)))"
  by (auto simp: resolve_media_def split: sum.splits)

lemma resolve_media_None: "resolve_media env None = ([], Inr None)"
  by (simp add: resolve_media_def)

text \<open>Where the handler can end, with what its trace then holds of the media step and of
  the creation of records.\<close>

lemma sendBatchMessages_media_step:
  obtains
    (stopped)
      "upload_calls (trace (sendBatchMessages env req)) = []"
      "fetch_calls (trace (sendBatchMessages env req)) = []"
      "created (trace (sendBatchMessages env req)) = []"
      "db_messages (sendBatchMessages env req) = messages env"
      "\<forall>r \<in> set (responses (trace (sendBatchMessages env req))).
         \<forall>e. body r \<noteq> Failure_error ''Failed to process media'' e"
  | (media_error) upl es error where
      "upload_promise (req_media_part req) = Inr upl"
      "resolve_media env (select_media upl (body_mediaUrl req)) = (es, Inl error)"
      "upload_calls (trace (sendBatchMessages env req)) = upload_calls es"
      "fetch_calls (trace (sendBatchMessages env req)) = fetch_calls es"
      "created (trace (sendBatchMessages env req)) = []"
      "db_messages (sendBatchMessages env req) = messages env"
  | (records_created) upl es url clientId where
      "upload_promise (req_media_part req) = Inr upl"
      "resolve_media env (select_media upl (body_mediaUrl req)) = (es, Inr url)"
      "upload_calls (trace (sendBatchMessages env req)) = upload_calls es"
      "fetch_calls (trace (sendBatchMessages env req)) = fetch_calls es"
      "created (trace (sendBatchMessages env req)) =
         createMessages env clientId (parse_numbers (body_numbers req))
           (parse_content (body_content req)) url"
      "responses (trace (sendBatchMessages env req)) =
         [\<lparr>status = 200,
           body = Batch_accepted (length (parse_numbers (body_numbers req)))
                    (map msg_id (createMessages env clientId (parse_numbers (body_numbers req))
                                   (parse_content (body_content req)) url))\<rparr>]"
proof (cases rule: sendBatchMessages_cases [where env = env and req = req])
  case (upload_rejected error)
  then show ?thesis using stopped by (simp add: reply_simps)
next
  case (unauthorized upl)
  then show ?thesis using stopped by (simp add: reply_simps)
next
  case (invalid upl userId)
  then show ?thesis using stopped by (simp add: reply_simps)
next
  case (checked upl userId)
  let ?ns = "parse_numbers (body_numbers req)"
  let ?ct = "parse_content (body_content req)"
  let ?media = "select_media upl (body_mediaUrl req)"
  note run = checked(5)
  show ?thesis
  proof (cases rule: with_session_cases [where env = env and userId = userId and ns = "?ns"
          and ct = "?ct" and media = "?media"])
    case not_connected
    then show ?thesis using stopped by (simp add: run reply_simps)
  next
    case (not_initialized c)
    then show ?thesis using stopped by (simp add: run reply_simps)
  next
    case (media_failed c inst es error)
    have "created es = []"
      using resolve_media_quiet [OF media_failed(4)] by simp
    then show ?thesis
      using media_error [OF checked(1) media_failed(4)]
      by (simp add: run media_failed(5) reply_simps trace_append)
  next
    case (dispatched c inst es url)
    have quiet: "responses es = []" "created es = []"
      using resolve_media_quiet [OF dispatched(4)] by simp_all
    show ?thesis
      using records_created [OF checked(1) dispatched(4), where clientId = "client_id c"]
      by (simp add: run dispatched(5) dispatch_projections quiet)
  qed
qed


lemma upload_promise_bad_type:
  "mimetype f \<notin> set allowedMimes \<Longrightarrow>
   upload_promise (Some f) = Inl (Error ''Invalid file type. Only images and PDF are allowed.'')"
  by (simp add: upload_promise_def upload_def fileFilter_def)

lemma upload_promise_too_large:
  "mimetype f \<in> set allowedMimes \<Longrightarrow> fileSize \<le> length (buffer f) \<Longrightarrow>
   upload_promise (Some f) = Inl (Error ''Upload error: File too large'')"
  by (simp add: upload_promise_def upload_def fileFilter_def)

lemma sendBatchMessages_rejected:
  assumes "upload_promise (req_media_part req) = Inl (Error msg)"
  shows "trace (sendBatchMessages env req) =
           [Log_error (''Send batch messages error: '' @ msg),
            Respond \<lparr>status = 500, body = Failure_message ''Failed to send messages'' msg\<rparr>]"
    and "db_messages (sendBatchMessages env req) = messages env"
    and "created (trace (sendBatchMessages env req)) = []"
    and "upload_calls (trace (sendBatchMessages env req)) = []"
  using assms by (simp_all add: sendBatchMessages_def reply_simps)

lemma registry_frame:
  "findFirst_client (env\<lparr>getWhatsAppInstance := g\<rparr>) userId = findFirst_client env userId"
  "resolve_media (env\<lparr>getWhatsAppInstance := g\<rparr>) media = resolve_media env media"
  "createMessages (env\<lparr>getWhatsAppInstance := g\<rparr>) c ns ct url = createMessages env c ns ct url"
  by (simp_all add: findFirst_client_def resolve_media_def createMessages_def
        split: option.split media.split fetch_result.split sum.split)





lemma select_media_Url:
  "select_media upl mediaUrl = Some (Url u) \<longleftrightarrow> upl = None \<and> mediaUrl = Some u \<and> u \<noteq> []"
  by (auto simp: select_media_def split: option.splits if_splits)

lemma resolve_media_Url_fetches:
  "Fetch_call u \<in> set (fst (resolve_media env (Some (Url u))))"
  by (simp add: resolve_media_def split: fetch_result.split)

text \<open>When the handler fetches the media URL: exactly when the request passed every
  earlier check and carries a non-empty \<open>mediaUrl\<close> and no file.\<close>

lemma fetch_call_iff:
  "Fetch_call u \<in> set (trace (sendBatchMessages env req)) \<longleftrightarrow>
     upload_promise (req_media_part req) = Inr None \<and>
     body_mediaUrl req = Some u \<and> u \<noteq> [] \<and> valid_form req \<and>
     (\<exists>userId c inst.
        req_user req = Some userId \<and> userId \<noteq> [] \<and>
        findFirst_client env userId = Some c \<and> client_status c = CONNECTED \<and>
        getWhatsAppInstance env (client_id c) = Some inst)"
  (is "?fetched \<longleftrightarrow> ?reached")
proof (cases rule: sendBatchMessages_cases [where env = env and req = req])
  case (upload_rejected error)
  then show ?thesis by (simp add: reply_simps)
next
  case (unauthorized upl)
  then show ?thesis by (auto simp: reply_simps)
next
  case (invalid upl userId)
  then show ?thesis by (simp add: reply_simps)
next
  case (checked upl userId)
  let ?ns = "parse_numbers (body_numbers req)"
  let ?ct = "parse_content (body_content req)"
  let ?media = "select_media upl (body_mediaUrl req)"
  note run = checked(5)
  have in_es: "Fetch_call u \<in> set es \<longleftrightarrow> upl = None \<and> body_mediaUrl req = Some u \<and> u \<noteq> []"
    if "resolve_media env ?media = (es, r)" for es r
  proof
    assume "Fetch_call u \<in> set es"
    with that have "?media = Some (Url u)" by (rule resolve_media_fetch)
    then show "upl = None \<and> body_mediaUrl req = Some u \<and> u \<noteq> []"
      by (simp add: select_media_Url)
  next
    assume "upl = None \<and> body_mediaUrl req = Some u \<and> u \<noteq> []"
    then have "?media = Some (Url u)" by (simp add: select_media_Url)
    with that resolve_media_Url_fetches [of u env] show "Fetch_call u \<in> set es" by simp
  qed
  show ?thesis
  proof (cases rule: with_session_cases [where env = env and userId = userId and ns = "?ns"
          and ct = "?ct" and media = "?media"])
    case not_connected
    with checked(1-4) show ?thesis by (auto simp: run reply_simps)
  next
    case (not_initialized c)
    with checked(1-4) show ?thesis by (auto simp: run reply_simps)
  next
    case (media_failed c inst es error)
    have "?fetched \<longleftrightarrow> Fetch_call u \<in> set es"
      by (simp add: run media_failed(5) reply_simps)
    with in_es [OF media_failed(4)] checked(1-4) media_failed(1-3) show ?thesis by auto
  next
    case (dispatched c inst es url)
    have "?fetched \<longleftrightarrow> Fetch_call u \<in> set es"
      by (auto simp: run dispatched(5) dispatch_simps split: option.splits)
    with in_es [OF dispatched(4)] checked(1-4) dispatched(1-3) show ?thesis by auto
  qed
qed

text \<open>The scenario of the spec, and the same with a runtime handle whose
  \<open>processBatch\<close> is rejected: same response, one more log line after it.\<close>

lemma sendBatchMessages_scenario:
  "trace (sendBatchMessages demo_env demo_request) =
     [Create_messages demo_records, On_progress, Process_batch demo_records,
      Respond \<lparr>status = 200, body = Batch_accepted 2 [js ''m0'', js ''m1'']\<rparr>] \<and>
   db_messages (sendBatchMessages demo_env demo_request) = demo_records \<and>
   map msg_number demo_records = [js ''1555000111'', js ''1555000222''] \<and>
   map msg_status demo_records = [PENDING, PENDING]"
  by code_simp

lemma sendBatchMessages_scenario_rejected:
  "trace (sendBatchMessages failing_env demo_request) =
     [Create_messages demo_records, On_progress, Process_batch demo_records,
      Respond \<lparr>status = 200, body = Batch_accepted 2 [js ''m0'', js ''m1'']\<rparr>,
      Log_error_with ''Message processing error:'' (Error ''Session closed'')]"
  by code_simp

text \<open>The example of the spec: the second page of ten, of 25 messages, holds the
  11th to the 20th in descending order of creation time, and there are 3 pages.\<close>

lemma getMessages_second_page_of_25:
  "trace (getMessages paged_env demo_list_request) =
     [Respond
        \<lparr>status = 200,
         body = Message_page (map demo_message_at [15, 14, 13, 12, 11, 10, 9, 8, 7, 6])
                  \<lparr>page = 2, limit = 10, total = 25, totalPages = 3\<rparr>\<rparr>]"
  by code_simp

text \<open>With a status filter, only the rows of that status are counted and paged: of
  the 12 SENT messages, the second page of ten holds the last two.\<close>

lemma getMessages_second_page_of_sent:
  "trace (getMessages paged_env sent_list_request) =
     [Respond
        \<lparr>status = 200,
         body = Message_page (map demo_message_at [4, 2])
                  \<lparr>page = 2, limit = 10, total = 12, totalPages = 2\<rparr>\<rparr>]"
  by code_simp

text \<open>An offset of \<open>2^63 - 1 = 60247241209 * 153092023\<close> is not a double: the
  multiplication gives \<open>2^63\<close>, which Prisma rejects.\<close>

lemma getMessages_rounded_offset:
  "(60247241210 - 1) * 153092023 = (9223372036854775807 :: int) \<and>
   to_double (to_double (60247241210 - 1) * 153092023) = 9223372036854775808 \<and>
   map status (responses (trace (getMessages paged_env rounded_offset_request))) = [500]"
  by code_simp

text \<open>The request with both a file and a media URL reaches the dispatch step, with the
  file uploaded.\<close>

lemma sendBatchMessages_both_request:
  "sendBatchMessages demo_env both_request =
     dispatch demo_env demo_instance (js ''c1'') [js ''1555000111'', js ''1555000222'']
       (js ''Hello'') (Some (js ''https://cdn/pid'')) [Upload_call (buffer png_part)]"
proof -
  have a: "upload_promise (req_media_part both_request) = Inr (Some png_part)"
    by (simp add: both_request_def upload_promise_cases png_part_def allowedMimes_def
          fileSize_def js_def)
  have b: "req_user both_request = Some (js ''alice'')" by code_simp
  have c: "js ''alice'' \<noteq> []" by code_simp
  have d: "valid_form both_request" by code_simp
  have e: "findFirst_client demo_env (js ''alice'') = Some demo_client" by code_simp
  have f: "client_status demo_client = CONNECTED" by code_simp
  have g: "getWhatsAppInstance demo_env (client_id demo_client) = Some demo_instance"
    by (simp add: demo_env_def demo_client_def)
  have h: "resolve_media demo_env (select_media (Some png_part) (body_mediaUrl both_request)) =
      ([Upload_call (buffer png_part)], Inr (Some (js ''https://cdn/pid'')))"
    by (simp add: resolve_media_def select_media_def demo_env_def js_def)
  have i: "parse_numbers (body_numbers both_request) = [js ''1555000111'', js ''1555000222'']"
    by code_simp
  have j: "parse_content (body_content both_request) = js ''Hello''" by code_simp
  have k: "client_id demo_client = js ''c1''" by code_simp
  show ?thesis
    using sendBatchMessages_valid [OF a b c d, of demo_env]
      with_session_ready [OF e f g h]
    by (simp only: i j k)
qed

section \<open>The claims\<close>

text \<open>
  C1. A request whose upload was accepted, from an authenticated user, with a non-empty
  parsed recipient list and a content that is not empty after trimming, whose user has
  a CONNECTED session with a runtime handle and whose media (if any) was resolved to
  \<open>url\<close>: the records created are one per recipient, in the order of the recipients,
  each PENDING, with the content and \<open>url\<close>; they are appended to the table; and the
  one response is a 200 whose \<open>messageIds\<close> are the ids of these records in that order.
\<close>

theorem C1_one_record_per_recipient:
  assumes "upload_promise (req_media_part req) = Inr file"
    and "req_user req = Some userId" and "userId \<noteq> []"
    and "parse_numbers (body_numbers req) \<noteq> []"
    and "parse_content (body_content req) \<noteq> []"
    and "findFirst_client env userId = Some c" and "client_status c = CONNECTED"
    and "getWhatsAppInstance env (client_id c) = Some inst"
    and "resolve_media env (select_media file (body_mediaUrl req)) = (es, Inr url)"
  shows "\<exists>recs.
           db_messages (sendBatchMessages env req) = messages env @ recs \<and>
           created (trace (sendBatchMessages env req)) = recs \<and>
           length recs = length (parse_numbers (body_numbers req)) \<and>
           (\<forall>i < length recs.
              msg_number (recs ! i) = parse_numbers (body_numbers req) ! i \<and>
              msg_clientId (recs ! i) = client_id c \<and>
              msg_status (recs ! i) = PENDING \<and>
              msg_content (recs ! i) = parse_content (body_content req) \<and>
              msg_mediaUrl (recs ! i) = url) \<and>
           responses (trace (sendBatchMessages env req)) =
             [\<lparr>status = 200,
               body = Batch_accepted (length (parse_numbers (body_numbers req)))
                        (map msg_id recs)\<rparr>]"
proof -
  let ?ns = "parse_numbers (body_numbers req)"
  let ?ct = "parse_content (body_content req)"
  let ?recs = "createMessages env (client_id c) ?ns ?ct url"
  have run: "sendBatchMessages env req = dispatch env inst (client_id c) ?ns ?ct url es"
    using assms by (simp add: sendBatchMessages_valid valid_form_def with_session_ready)
  have quiet: "responses es = []" "created es = []"
    using resolve_media_quiet [OF assms(9)] by simp_all
  have "db_messages (sendBatchMessages env req) = messages env @ ?recs"
    by (simp add: run dispatch_simps)
  moreover have "created (trace (sendBatchMessages env req)) = ?recs"
    by (simp add: run dispatch_simps trace_append quiet split: option.split)
  moreover have "length ?recs = length ?ns"
    by (rule length_createMessages)
  moreover have "\<forall>i < length ?recs.
              msg_number (?recs ! i) = ?ns ! i \<and>
              msg_clientId (?recs ! i) = client_id c \<and>
              msg_status (?recs ! i) = PENDING \<and>
              msg_content (?recs ! i) = ?ct \<and>
              msg_mediaUrl (?recs ! i) = url"
    by (simp add: length_createMessages nth_createMessages)
  moreover have "responses (trace (sendBatchMessages env req)) =
             [\<lparr>status = 200, body = Batch_accepted (length ?ns) (map msg_id ?recs)\<rparr>]"
    by (simp add: run dispatch_simps trace_append quiet split: option.split)
  ultimately show ?thesis by blast
qed


theorem C1_one_record_per_recipient_witness:
  "upload_promise (req_media_part demo_request) = Inr None \<and>
   req_user demo_request = Some (js ''alice'') \<and> js ''alice'' \<noteq> [] \<and>
   parse_numbers (body_numbers demo_request) \<noteq> [] \<and>
   parse_content (body_content demo_request) \<noteq> [] \<and>
   findFirst_client demo_env (js ''alice'') = Some demo_client \<and>
   client_status demo_client = CONNECTED \<and>
   getWhatsAppInstance demo_env (client_id demo_client) = Some demo_instance \<and>
   resolve_media demo_env (select_media None (body_mediaUrl demo_request)) = ([], Inr None) \<and>
   (\<exists>recs.
      db_messages (sendBatchMessages demo_env demo_request) = messages demo_env @ recs \<and>
      created (trace (sendBatchMessages demo_env demo_request)) = recs \<and>
      length recs = length (parse_numbers (body_numbers demo_request)) \<and>
      (\<forall>i < length recs.
         msg_number (recs ! i) = parse_numbers (body_numbers demo_request) ! i \<and>
         msg_clientId (recs ! i) = client_id demo_client \<and>
         msg_status (recs ! i) = PENDING \<and>
         msg_content (recs ! i) = parse_content (body_content demo_request) \<and>
         msg_mediaUrl (recs ! i) = None) \<and>
      responses (trace (sendBatchMessages demo_env demo_request)) =
        [\<lparr>status = 200,
          body = Batch_accepted (length (parse_numbers (body_numbers demo_request)))
                   (map msg_id recs)\<rparr>])"
proof -
  have h1: "upload_promise (req_media_part demo_request) = Inr None"
    by (simp add: demo_request_def upload_promise_def upload_def)
  have h2: "req_user demo_request = Some (js ''alice'')"
    by (simp add: demo_request_def)
  have h3: "js ''alice'' \<noteq> []"
    by (simp add: js_def)
  have h4: "parse_numbers (body_numbers demo_request) \<noteq> []"
    by (simp add: demo_request_def parse_numbers_def js_def)
  have h5: "parse_content (body_content demo_request) \<noteq> []"
    by (simp add: demo_request_def parse_content_def trim_def is_white_space_def js_def)
  have h6: "findFirst_client demo_env (js ''alice'') = Some demo_client"
    by (simp add: findFirst_client_def demo_env_def demo_client_def)
  have h7: "client_status demo_client = CONNECTED"
    by (simp add: demo_client_def)
  have h8: "getWhatsAppInstance demo_env (client_id demo_client) = Some demo_instance"
    by (simp add: demo_env_def demo_client_def)
  have h9: "resolve_media demo_env (select_media None (body_mediaUrl demo_request)) = ([], Inr None)"
    by (simp add: resolve_media_def select_media_def demo_request_def)
  show ?thesis
    by (intro conjI h1 h2 h3 h4 h5 h6 h7 h8 h9
          C1_one_record_per_recipient [OF h1 h2 h3 h4 h5 h6 h7 h8 h9])
qed

text \<open>
  C2. A request whose parsed recipient list is empty, or whose content is absent, empty
  or made of white space only, creates no record and leaves the table as it was; and
  when its upload was accepted and it carries an authenticated user id, so that the
  handler reaches the check of line 70, its one response is the 400 with the
  invalid-format message.
\<close>

theorem C2_invalid_batch_request:
  assumes "parse_numbers (body_numbers req) = [] \<or>
           list_all is_white_space (case body_content req of None \<Rightarrow> [] | Some s \<Rightarrow> s)"
  shows "db_messages (sendBatchMessages env req) = messages env \<and>
         created (trace (sendBatchMessages env req)) = [] \<and>
         (upload_promise (req_media_part req) = Inr upl \<and>
          req_user req = Some userId \<and> userId \<noteq> [] \<longrightarrow>
            responses (trace (sendBatchMessages env req)) =
              [\<lparr>status = 400, body = Failure invalid_format\<rparr>])"
proof -
  have invalid_form: "\<not> valid_form req"
    using assms by (auto simp: valid_form_def parse_content_def trim_Nil_iff)
  show ?thesis
  proof (cases rule: sendBatchMessages_cases [where env = env and req = req])
    case (upload_rejected error)
    then show ?thesis by (simp add: reply_simps)
  next
    case (unauthorized upl')
    then show ?thesis by (auto simp: reply_simps)
  next
    case (invalid upl' userId')
    then show ?thesis by (simp add: reply_simps)
  next
    case (checked upl' userId')
    with invalid_form show ?thesis by simp
  qed
qed

theorem C2_invalid_batch_request_witness:
  "(parse_numbers (body_numbers blank_request) = [] \<or>
    list_all is_white_space (case body_content blank_request of None \<Rightarrow> [] | Some s \<Rightarrow> s)) \<and>
   upload_promise (req_media_part blank_request) = Inr None \<and>
   req_user blank_request = Some (js ''alice'') \<and>
   js ''alice'' \<noteq> [] \<and>
   db_messages (sendBatchMessages demo_env blank_request) = messages demo_env \<and>
   created (trace (sendBatchMessages demo_env blank_request)) = [] \<and>
   responses (trace (sendBatchMessages demo_env blank_request)) =
     [\<lparr>status = 400, body = Failure invalid_format\<rparr>]"
proof -
  have h: "parse_numbers (body_numbers blank_request) = [] \<or>
      list_all is_white_space (case body_content blank_request of None \<Rightarrow> [] | Some s \<Rightarrow> s)"
    by code_simp
  have h1: "upload_promise (req_media_part blank_request) = Inr None"
    by code_simp
  have h2: "req_user blank_request = Some (js ''alice'')"
    by code_simp
  have h3: "js ''alice'' \<noteq> []"
    by code_simp
  note t = C2_invalid_batch_request [OF h, of demo_env None "js ''alice''"]
  show ?thesis
    by (intro conjI h h1 h2 h3 t [THEN conjunct1] t [THEN conjunct2, THEN conjunct1]
          t [THEN conjunct2, THEN conjunct2, THEN mp, OF conjI [OF h1 conjI [OF h2 h3]]])
qed

text \<open>
  C3. A request of an authenticated user who has no session, or whose session is not
  CONNECTED, or whose session has no runtime handle, creates no record and leaves the
  table as it was; and when its upload was accepted, its one response is a 400, which
  for a valid form is that the client is not connected or not initialized.
\<close>

theorem C3_session_not_ready:
  assumes "req_user req = Some userId" and "userId \<noteq> []"
    and "findFirst_client env userId = None \<or>
         (\<exists>c. findFirst_client env userId = Some c \<and>
              (client_status c \<noteq> CONNECTED \<or> getWhatsAppInstance env (client_id c) = None))"
  shows "db_messages (sendBatchMessages env req) = messages env \<and>
         created (trace (sendBatchMessages env req)) = [] \<and>
         (upload_promise (req_media_part req) = Inr upl \<longrightarrow>
            (\<exists>msg. responses (trace (sendBatchMessages env req)) =
                     [\<lparr>status = 400, body = Failure msg\<rparr>] \<and>
                   (valid_form req \<longrightarrow>
                      msg = ''WhatsApp client not connected'' \<or>
                      msg = ''WhatsApp client not initialized'')))"
proof (cases rule: sendBatchMessages_cases [where env = env and req = req])
  case (upload_rejected error)
  then show ?thesis by (simp add: reply_simps)
next
  case (unauthorized upl')
  with assms(1,2) show ?thesis by simp
next
  case (invalid upl' userId')
  then show ?thesis by (simp add: reply_simps)
next
  case (checked upl' userId')
  let ?ns = "parse_numbers (body_numbers req)"
  let ?ct = "parse_content (body_content req)"
  let ?media = "select_media upl' (body_mediaUrl req)"
  note run = checked(5)
  from checked(2) assms(1) have same: "userId' = userId" by simp
  show ?thesis
  proof (cases rule: with_session_cases [where env = env and userId = userId' and ns = "?ns"
          and ct = "?ct" and media = "?media"])
    case not_connected
    then show ?thesis by (simp add: run reply_simps)
  next
    case (not_initialized c)
    then show ?thesis by (simp add: run reply_simps)
  next
    case (media_failed c inst es error)
    with assms(3) same show ?thesis by auto
  next
    case (dispatched c inst es url)
    with assms(3) same show ?thesis by auto
  qed
qed

theorem C3_session_not_ready_witness:
  "req_user demo_request = Some (js ''alice'') \<and>
   js ''alice'' \<noteq> [] \<and>
   (findFirst_client offline_env (js ''alice'') = None \<or>
    (\<exists>c. findFirst_client offline_env (js ''alice'') = Some c \<and>
         (client_status c \<noteq> CONNECTED \<or> getWhatsAppInstance offline_env (client_id c) = None))) \<and>
   upload_promise (req_media_part demo_request) = Inr None \<and>
   db_messages (sendBatchMessages offline_env demo_request) = messages offline_env \<and>
   created (trace (sendBatchMessages offline_env demo_request)) = [] \<and>
   (\<exists>msg. responses (trace (sendBatchMessages offline_env demo_request)) =
            [\<lparr>status = 400, body = Failure msg\<rparr>] \<and>
          (valid_form demo_request \<longrightarrow>
             msg = ''WhatsApp client not connected'' \<or>
             msg = ''WhatsApp client not initialized''))"
proof -
  have found: "findFirst_client offline_env (js ''alice'') =
      Some (demo_client\<lparr>client_status := DISCONNECTED\<rparr>)"
    by code_simp
  have h1: "req_user demo_request = Some (js ''alice'')"
    by code_simp
  have h2: "js ''alice'' \<noteq> []"
    by code_simp
  have h3: "findFirst_client offline_env (js ''alice'') = None \<or>
    (\<exists>c. findFirst_client offline_env (js ''alice'') = Some c \<and>
         (client_status c \<noteq> CONNECTED \<or> getWhatsAppInstance offline_env (client_id c) = None))"
    by (rule disjI2, rule exI, rule conjI [OF found]) simp
  have h4: "upload_promise (req_media_part demo_request) = Inr None"
    by code_simp
  note t = C3_session_not_ready [OF h1 h2 h3, of None]
  show ?thesis
    by (intro conjI h1 h2 h3 h4 t [THEN conjunct1] t [THEN conjunct2, THEN conjunct1]
          t [THEN conjunct2, THEN conjunct2, THEN mp, OF h4])
qed




text \<open>
  C5. A request in whose handling the media URL \<open>u\<close> is fetched, the fetch being
  answered without success: the one response is the 400 \<open>Failed to process media\<close>
  carrying the error \<open>Failed to fetch media from URL\<close>, the table is as it was, no
  record is created and nothing is uploaded.
\<close>

theorem C5_media_fetch_error:
  assumes "Fetch_call u \<in> set (trace (sendBatchMessages env req))"
    and "fetch env u = Fetch_response False content"
  shows "responses (trace (sendBatchMessages env req)) =
           [\<lparr>status = 400,
             body = Failure_error ''Failed to process media''
                      (Error ''Failed to fetch media from URL'')\<rparr>] \<and>
         db_messages (sendBatchMessages env req) = messages env \<and>
         created (trace (sendBatchMessages env req)) = [] \<and>
         upload_calls (trace (sendBatchMessages env req)) = []"
proof (cases rule: sendBatchMessages_cases [where env = env and req = req])
  case (upload_rejected error)
  with assms(1) show ?thesis by (simp add: reply_simps)
next
  case (unauthorized upl)
  with assms(1) show ?thesis by (simp add: reply_simps)
next
  case (invalid upl userId)
  with assms(1) show ?thesis by (simp add: reply_simps)
next
  case (checked upl userId)
  let ?ns = "parse_numbers (body_numbers req)"
  let ?ct = "parse_content (body_content req)"
  let ?media = "select_media upl (body_mediaUrl req)"
  note run = checked(5)
  have fetched: "resolve_media env ?media = (es, r) \<Longrightarrow> Fetch_call u \<in> set es \<Longrightarrow>
      es = [Fetch_call u] \<and> r = Inl (Error ''Failed to fetch media from URL'')" for es r
    using resolve_media_fetch [of env ?media es r u] resolve_media_not_ok [OF assms(2)]
    by auto
  show ?thesis
  proof (cases rule: with_session_cases [where env = env and userId = userId and ns = "?ns" and ct = "?ct" and media = "?media"])
    case not_connected
    with assms(1) show ?thesis by (simp add: run reply_simps)
  next
    case (not_initialized c)
    with assms(1) show ?thesis by (simp add: run reply_simps)
  next
    case (media_failed c inst es error)
    from assms(1) have "Fetch_call u \<in> set es"
      by (simp add: run media_failed(5) reply_simps)
    with fetched [OF media_failed(4)] have "es = [Fetch_call u]"
      and "error = Error ''Failed to fetch media from URL''" by simp_all
    then show ?thesis by (simp add: run media_failed(5) reply_simps)
  next
    case (dispatched c inst es url)
    from assms(1) have "Fetch_call u \<in> set es"
      by (auto simp: run dispatched(5) dispatch_simps split: option.splits)
    with fetched [OF dispatched(4)] show ?thesis by simp
  qed
qed


theorem C5_media_fetch_error_witness:
  "Fetch_call (js ''http://x/a.png'') \<in> set (trace (sendBatchMessages demo_env url_request)) \<and>
   fetch demo_env (js ''http://x/a.png'') = Fetch_response False [] \<and>
   responses (trace (sendBatchMessages demo_env url_request)) =
     [\<lparr>status = 400,
       body = Failure_error ''Failed to process media''
                (Error ''Failed to fetch media from URL'')\<rparr>] \<and>
   db_messages (sendBatchMessages demo_env url_request) = messages demo_env \<and>
   created (trace (sendBatchMessages demo_env url_request)) = [] \<and>
   upload_calls (trace (sendBatchMessages demo_env url_request)) = []"
proof -
  have h1: "Fetch_call (js ''http://x/a.png'') \<in> set (trace (sendBatchMessages demo_env url_request))"
    by code_simp
  have h2: "fetch demo_env (js ''http://x/a.png'') = Fetch_response False []"
    by (simp add: demo_env_def)
  show ?thesis
    by (rule conjI [OF h1 conjI [OF h2 C5_media_fetch_error [OF h1 h2]]])
qed

text \<open>
  C6. With the identifiers of clients and of messages unique (they are primary keys), a
  message \<open>m\<close> of a session of user A, and an authenticated user B other than A:
  \<open>getMessageStatus\<close> of B for the id of \<open>m\<close> answers 404 \<open>Message not found\<close> and
  nothing else.
\<close>

theorem C6_cross_user_not_found:
  assumes "distinct (map client_id (clients env))"
    and "distinct (map msg_id (messages env))"
    and "m \<in> set (messages env)" and "c \<in> set (clients env)"
    and "client_id c = msg_clientId m" and "client_userId c = userA"
    and "userB \<noteq> userA" and "userB \<noteq> []"
  shows "trace (getMessageStatus env \<lparr>status_user = Some userB, params_id = msg_id m\<rparr>) =
           [Respond \<lparr>status = 404, body = Failure ''Message not found''\<rparr>]"
proof -
  have "findFirst_message env (msg_id m) userB = None"
  proof (rule ccontr)
    assume "findFirst_message env (msg_id m) userB \<noteq> None"
    then obtain m' c' where m': "m' \<in> set (messages env)" "msg_id m' = msg_id m"
      and c': "c' \<in> set (clients env)" "client_id c' = msg_clientId m'" "client_userId c' = userB"
      by (auto simp: findFirst_message_def find_None_iff)
    from assms(2) have "inj_on msg_id (set (messages env))"
      by (simp add: distinct_map)
    from inj_onD [OF this m'(2) m'(1) assms(3)] have "m' = m" .
    from assms(1) have "inj_on client_id (set (clients env))"
      by (simp add: distinct_map)
    moreover have "client_id c' = client_id c"
      using c'(2) assms(5) \<open>m' = m\<close> by simp
    ultimately have "c' = c"
      using c'(1) assms(4) by (rule inj_onD)
    with c'(3) assms(6,7) show False by simp
  qed
  with assms(8) show ?thesis
    by (simp add: getMessageStatus_def reply_simps)
qed

theorem C6_cross_user_not_found_witness:
  "distinct (map client_id (clients shared_env)) \<and>
   distinct (map msg_id (messages shared_env)) \<and>
   hd demo_records \<in> set (messages shared_env) \<and>
   demo_client \<in> set (clients shared_env) \<and>
   client_id demo_client = msg_clientId (hd demo_records) \<and>
   client_userId demo_client = js ''alice'' \<and>
   js ''bob'' \<noteq> js ''alice'' \<and>
   js ''bob'' \<noteq> [] \<and>
   trace (getMessageStatus shared_env
             \<lparr>status_user = Some (js ''bob''), params_id = msg_id (hd demo_records)\<rparr>) =
     [Respond \<lparr>status = 404, body = Failure ''Message not found''\<rparr>]"
proof -
  have h1: "distinct (map client_id (clients shared_env))"
    by code_simp
  have h2: "distinct (map msg_id (messages shared_env))"
    by code_simp
  have h3: "hd demo_records \<in> set (messages shared_env)"
    by code_simp
  have h4: "demo_client \<in> set (clients shared_env)"
    by code_simp
  have h5: "client_id demo_client = msg_clientId (hd demo_records)"
    by code_simp
  have h6: "client_userId demo_client = js ''alice''"
    by code_simp
  have h7: "js ''bob'' \<noteq> js ''alice''"
    by code_simp
  have h8: "js ''bob'' \<noteq> []"
    by code_simp
  show ?thesis
    by (rule conjI [OF h1 conjI [OF h2 conjI [OF h3 conjI [OF h4 conjI [OF h5 conjI [OF h6 conjI [OF h7 conjI [OF h8 C6_cross_user_not_found [OF h1 h2 h3 h4 h5 h6 h7 h8]]]]]]]]])
qed

text \<open>
  C7. A request that reaches the dispatch step, handing the records \<open>recs\<close> to
  \<open>processBatch\<close>: the next effect is the 200 with the number of recipients and the
  ids of \<open>recs\<close> in order, no response was sent before, and what follows is nothing
  when the promise of \<open>processBatch\<close> is fulfilled and one log line when it is
  rejected. Whatever runtime handle the registry holds, and so whatever its
  \<open>processBatch\<close> returns, the responses are this one 200.
\<close>

theorem C7_acknowledged_before_completion:
  assumes "Process_batch recs \<in> set (trace (sendBatchMessages env req))"
  shows "\<exists>pre inst.
           trace (sendBatchMessages env req) =
             pre @
             [Process_batch recs,
              Respond \<lparr>status = 200,
                       body = Batch_accepted (length (parse_numbers (body_numbers req)))
                                (map msg_id recs)\<rparr>] @
             (case processBatch inst recs of
                None \<Rightarrow> []
              | Some error \<Rightarrow> [Log_error_with ''Message processing error:'' error]) \<and>
           responses pre = [] \<and> created pre = recs \<and>
           length recs = length (parse_numbers (body_numbers req)) \<and>
           (\<exists>c \<in> set (clients env). getWhatsAppInstance env (client_id c) = Some inst) \<and>
           (\<forall>inst'.
              responses (trace (sendBatchMessages
                (env\<lparr>getWhatsAppInstance :=
                       \<lambda>c. map_option (\<lambda>_. inst') (getWhatsAppInstance env c)\<rparr>) req)) =
                [\<lparr>status = 200,
                  body = Batch_accepted (length (parse_numbers (body_numbers req)))
                           (map msg_id recs)\<rparr>])"
proof (cases rule: sendBatchMessages_cases [where env = env and req = req])
  case (upload_rejected error)
  with assms show ?thesis by (simp add: reply_simps)
next
  case (unauthorized upl)
  with assms show ?thesis by (simp add: reply_simps)
next
  case (invalid upl userId)
  with assms show ?thesis by (simp add: reply_simps)
next
  case (checked upl userId)
  let ?ns = "parse_numbers (body_numbers req)"
  let ?ct = "parse_content (body_content req)"
  let ?media = "select_media upl (body_mediaUrl req)"
  note run = checked(5)
  show ?thesis
  proof (cases rule: with_session_cases [where env = env and userId = userId and ns = "?ns"
          and ct = "?ct" and media = "?media"])
    case not_connected
    with assms show ?thesis by (simp add: run reply_simps)
  next
    case (not_initialized c)
    with assms show ?thesis by (simp add: run reply_simps)
  next
    case (media_failed c inst es error)
    have "Process_batch recs \<notin> set es"
      using media_failed(4)
      by (auto simp: resolve_media_def
            split: option.splits media.splits fetch_result.splits if_splits)
    with assms show ?thesis by (simp add: run media_failed(5) reply_simps)
  next
    case (dispatched c inst es url)
    let ?recs = "createMessages env (client_id c) ?ns ?ct url"
    let ?env' = "\<lambda>inst'. env\<lparr>getWhatsAppInstance :=
                       \<lambda>c. map_option (\<lambda>_. inst') (getWhatsAppInstance env c)\<rparr>"
    have quiet: "responses es = []" "created es = []"
      using resolve_media_quiet [OF dispatched(4)] by simp_all
    have "Process_batch recs \<notin> set es"
      using dispatched(4)
      by (auto simp: resolve_media_def
            split: option.splits media.splits fetch_result.splits if_splits)
    with assms have recs: "recs = ?recs"
      by (auto simp: run dispatched(5) dispatch_simps split: option.splits)
    have tr: "trace (sendBatchMessages env req) =
             (es @ [Create_messages ?recs, On_progress]) @
             [Process_batch ?recs,
              Respond \<lparr>status = 200, body = Batch_accepted (length ?ns) (map msg_id ?recs)\<rparr>] @
             (case processBatch inst ?recs of
                None \<Rightarrow> []
              | Some error \<Rightarrow> [Log_error_with ''Message processing error:'' error])"
      by (simp add: run dispatched(5) dispatch_simps)
    have pre: "responses (es @ [Create_messages ?recs, On_progress]) = []"
      "created (es @ [Create_messages ?recs, On_progress]) = ?recs"
      by (simp_all add: trace_append quiet)
    have other: "responses (trace (sendBatchMessages (?env' inst') req)) =
        [\<lparr>status = 200, body = Batch_accepted (length ?ns) (map msg_id ?recs)\<rparr>]" for inst'
    proof -
      have "sendBatchMessages (?env' inst') req =
          with_session (?env' inst') userId ?ns ?ct ?media"
        using checked(1-4) by (rule sendBatchMessages_valid)
      also have "\<dots> = dispatch (?env' inst') inst' (client_id c) ?ns ?ct url es"
        by (rule with_session_ready [where c = c])
           (simp_all add: registry_frame dispatched(1-4))
      finally show ?thesis
        by (simp add: dispatch_projections quiet registry_frame)
    qed
    have reg: "\<exists>c \<in> set (clients env). getWhatsAppInstance env (client_id c) = Some inst"
      using dispatched(1,3) by (auto simp: findFirst_client_def find_Some_iff)
    show ?thesis
      unfolding recs
    proof (intro exI conjI allI)
      show "trace (sendBatchMessages env req) =
             (es @ [Create_messages ?recs, On_progress]) @
             [Process_batch ?recs,
              Respond \<lparr>status = 200, body = Batch_accepted (length ?ns) (map msg_id ?recs)\<rparr>] @
             (case processBatch inst ?recs of
                None \<Rightarrow> []
              | Some error \<Rightarrow> [Log_error_with ''Message processing error:'' error])"
        by (rule tr)
    qed (simp_all only: pre other length_createMessages reg)
  qed
qed

theorem C7_acknowledged_before_completion_witness:
  "Process_batch demo_records \<in> set (trace (sendBatchMessages failing_env demo_request)) \<and>
   (\<exists>pre inst.
      trace (sendBatchMessages failing_env demo_request) =
        pre @
        [Process_batch demo_records,
         Respond \<lparr>status = 200,
                  body = Batch_accepted (length (parse_numbers (body_numbers demo_request)))
                           (map msg_id demo_records)\<rparr>] @
        (case processBatch inst demo_records of
           None \<Rightarrow> []
         | Some error \<Rightarrow> [Log_error_with ''Message processing error:'' error]) \<and>
      responses pre = [] \<and> created pre = demo_records \<and>
      length demo_records = length (parse_numbers (body_numbers demo_request)) \<and>
      (\<exists>c \<in> set (clients failing_env). getWhatsAppInstance failing_env (client_id c) = Some inst) \<and>
      (\<forall>inst'.
         responses (trace (sendBatchMessages
           (failing_env\<lparr>getWhatsAppInstance :=
                  \<lambda>c. map_option (\<lambda>_. inst') (getWhatsAppInstance failing_env c)\<rparr>)
           demo_request)) =
           [\<lparr>status = 200,
             body = Batch_accepted (length (parse_numbers (body_numbers demo_request)))
                      (map msg_id demo_records)\<rparr>]))"
proof -
  have h1: "Process_batch demo_records \<in> set (trace (sendBatchMessages failing_env demo_request))"
    by code_simp
  show ?thesis
    by (rule conjI [OF h1 C7_acknowledged_before_completion [OF h1]])
qed

text \<open>
  C8. No request makes more than one upload call. A request with neither an uploaded
  file nor a (non-empty) media URL makes no upload call and no fetch, its records, if
  any are created, have no media URL, and it is never answered with the media failure.
\<close>

theorem C8_at_most_one_upload:
  "length (upload_calls (trace (sendBatchMessages env req))) \<le> 1 \<and>
   (req_media_part req = None \<and> (body_mediaUrl req = None \<or> body_mediaUrl req = Some []) \<longrightarrow>
      upload_calls (trace (sendBatchMessages env req)) = [] \<and>
      fetch_calls (trace (sendBatchMessages env req)) = [] \<and>
      (\<forall>m \<in> set (created (trace (sendBatchMessages env req))). msg_mediaUrl m = None) \<and>
      (\<forall>r \<in> set (responses (trace (sendBatchMessages env req))).
         \<forall>e. body r \<noteq> Failure_error ''Failed to process media'' e))"
proof (cases rule: sendBatchMessages_media_step [where env = env and req = req])
  case stopped
  then show ?thesis by simp
next
  case (media_error upl es error)
  have "length (upload_calls es) \<le> 1"
    using media_error(2) by (rule resolve_media_uploads)
  moreover have False
    if "req_media_part req = None" "body_mediaUrl req = None \<or> body_mediaUrl req = Some []"
    using that media_error(1,2)
    by (auto simp: upload_promise_cases select_media_def resolve_media_None)
  ultimately show ?thesis
    using media_error(3) by auto
next
  case (records_created upl es url clientId)
  have "length (upload_calls es) \<le> 1"
    using records_created(2) by (rule resolve_media_uploads)
  moreover have "es = [] \<and> url = None"
    if "req_media_part req = None" "body_mediaUrl req = None \<or> body_mediaUrl req = Some []"
    using that records_created(1,2)
    by (auto simp: upload_promise_cases select_media_def resolve_media_None)
  moreover have "\<forall>m \<in> set (createMessages env clientId ns ct None). msg_mediaUrl m = None" for ns ct
    by (auto simp: createMessages_def)
  ultimately show ?thesis
    using records_created(3-6) by auto
qed

theorem C8_at_most_one_upload_witness:
  "req_media_part demo_request = None \<and>
   (body_mediaUrl demo_request = None \<or> body_mediaUrl demo_request = Some []) \<and>
   length (upload_calls (trace (sendBatchMessages demo_env demo_request))) \<le> 1 \<and>
   upload_calls (trace (sendBatchMessages demo_env demo_request)) = [] \<and>
   fetch_calls (trace (sendBatchMessages demo_env demo_request)) = [] \<and>
   hd demo_records \<in> set (created (trace (sendBatchMessages demo_env demo_request))) \<and>
   msg_mediaUrl (hd demo_records) = None \<and>
   \<lparr>status = 200, body = Batch_accepted 2 (map msg_id demo_records)\<rparr>
     \<in> set (responses (trace (sendBatchMessages demo_env demo_request))) \<and>
   (\<forall>e. body \<lparr>status = 200, body = Batch_accepted 2 (map msg_id demo_records)\<rparr> \<noteq>
          Failure_error ''Failed to process media'' e)"
proof -
  have h1: "req_media_part demo_request = None"
    by code_simp
  have h2: "body_mediaUrl demo_request = None \<or> body_mediaUrl demo_request = Some []"
    by code_simp
  have m: "hd demo_records \<in> set (created (trace (sendBatchMessages demo_env demo_request)))"
    by code_simp
  have r: "\<lparr>status = 200, body = Batch_accepted 2 (map msg_id demo_records)\<rparr>
     \<in> set (responses (trace (sendBatchMessages demo_env demo_request)))"
    by code_simp
  note c = C8_at_most_one_upload [of demo_env demo_request]
  note d = c [THEN conjunct2, THEN mp, OF conjI [OF h1 h2]]
  show ?thesis
    by (intro conjI h1 h2 m r c [THEN conjunct1] d [THEN conjunct1]
          d [THEN conjunct2, THEN conjunct1]
          d [THEN conjunct2, THEN conjunct2, THEN conjunct1, THEN bspec, OF m]
          d [THEN conjunct2, THEN conjunct2, THEN conjunct2, THEN bspec, OF r])
qed

text \<open>
  C9, as amended. A request whose file part is longer than 16 MiB or of a type outside
  the allowed set: the handler logs the error and answers 500 \<open>Failed to send
  messages\<close> with the message of the upload error, and does nothing else: the table is
  as it was, no record is created, nothing is uploaded.
\<close>

theorem C9_rejected_upload:
  assumes "req_media_part req = Some f"
    and "fileSize < length (buffer f) \<or> mimetype f \<notin> set allowedMimes"
  shows "\<exists>msg.
           (msg = ''Invalid file type. Only images and PDF are allowed.'' \<or>
            msg = ''Upload error: File too large'') \<and>
           trace (sendBatchMessages env req) =
             [Log_error (''Send batch messages error: '' @ msg),
              Respond \<lparr>status = 500, body = Failure_message ''Failed to send messages'' msg\<rparr>] \<and>
           db_messages (sendBatchMessages env req) = messages env \<and>
           created (trace (sendBatchMessages env req)) = [] \<and>
           upload_calls (trace (sendBatchMessages env req)) = []"
proof (cases "mimetype f \<in> set allowedMimes")
  case False
  then have "upload_promise (req_media_part req) =
      Inl (Error ''Invalid file type. Only images and PDF are allowed.'')"
    unfolding assms(1) by (rule upload_promise_bad_type)
  note r = sendBatchMessages_rejected [OF this, of env]
  show ?thesis
    by (rule exI [where x = "''Invalid file type. Only images and PDF are allowed.''"])
       (intro conjI disjI1 refl r)
next
  case True
  with assms(2) have "fileSize \<le> length (buffer f)" by auto
  with True have "upload_promise (req_media_part req) =
      Inl (Error ''Upload error: File too large'')"
    unfolding assms(1) by (rule upload_promise_too_large)
  note r = sendBatchMessages_rejected [OF this, of env]
  show ?thesis
    by (rule exI [where x = "''Upload error: File too large''"])
       (intro conjI disjI2 refl r)
qed

theorem C9_rejected_upload_witness:
  "req_media_part oversize_request = Some oversize_part \<and>
   (fileSize < length (buffer oversize_part) \<or> mimetype oversize_part \<notin> set allowedMimes) \<and>
   (\<exists>msg.
      (msg = ''Invalid file type. Only images and PDF are allowed.'' \<or>
       msg = ''Upload error: File too large'') \<and>
      trace (sendBatchMessages demo_env oversize_request) =
        [Log_error (''Send batch messages error: '' @ msg),
         Respond \<lparr>status = 500, body = Failure_message ''Failed to send messages'' msg\<rparr>] \<and>
      db_messages (sendBatchMessages demo_env oversize_request) = messages demo_env \<and>
      created (trace (sendBatchMessages demo_env oversize_request)) = [] \<and>
      upload_calls (trace (sendBatchMessages demo_env oversize_request)) = [])"
proof -
  have h1: "req_media_part oversize_request = Some oversize_part"
    by (simp add: oversize_request_def)
  have h2: "fileSize < length (buffer oversize_part) \<or> mimetype oversize_part \<notin> set allowedMimes"
    by (simp add: fileSize_def oversize_part_def)
  show ?thesis
    by (rule conjI [OF h1 conjI [OF h2 C9_rejected_upload [OF h1 h2, of demo_env]]])
qed

theorem C9_upload_rejection_is_500_counterexample:
  "req_media_part rejected_request = Some text_part \<and>
   mimetype text_part \<notin> set allowedMimes \<and>
   map status (responses (trace (sendBatchMessages demo_env rejected_request))) = [500] \<and>
   db_messages (sendBatchMessages demo_env rejected_request) = messages demo_env"
  by code_simp

text \<open>
  C10. A request with an uploaded file and a \<open>mediaUrl\<close> field is handled as the same
  request without the field: nothing is fetched, every upload call carries the bytes
  of the file, and the media URL of every record created is the optimized URL of the
  public id the upload of these bytes returned.
\<close>

theorem C10_file_before_url:
  assumes "req_media_part req = Some f" and "body_mediaUrl req = Some u"
  shows "sendBatchMessages env req = sendBatchMessages env (req\<lparr>body_mediaUrl := None\<rparr>) \<and>
         fetch_calls (trace (sendBatchMessages env req)) = [] \<and>
         (\<forall>b \<in> set (upload_calls (trace (sendBatchMessages env req))). b = buffer f) \<and>
         (\<forall>m \<in> set (created (trace (sendBatchMessages env req))).
            \<exists>public_id. uploadToCloudinary env (buffer f) = Inr public_id \<and>
                        msg_mediaUrl m = Some (getOptimizedUrl env public_id))"
proof -
  have sel: "upload_promise (req_media_part req) = Inr upl \<Longrightarrow>
      select_media upl x = Some (Buffer (buffer f))" for upl x
    using assms(1) by (cases upl) (auto simp: upload_promise_cases select_media_def split: if_splits)
  have same: "sendBatchMessages env req = sendBatchMessages env (req\<lparr>body_mediaUrl := None\<rparr>)"
  proof (cases "upload_promise (req_media_part req)")
    case (Inl error)
    then show ?thesis by (simp add: sendBatchMessages_def)
  next
    case (Inr upl)
    then show ?thesis
      by (simp add: sendBatchMessages_def Let_def sel [OF Inr] split: option.split)
  qed
  have rest: "fetch_calls (trace (sendBatchMessages env req)) = [] \<and>
         (\<forall>b \<in> set (upload_calls (trace (sendBatchMessages env req))). b = buffer f) \<and>
         (\<forall>m \<in> set (created (trace (sendBatchMessages env req))).
            \<exists>public_id. uploadToCloudinary env (buffer f) = Inr public_id \<and>
                        msg_mediaUrl m = Some (getOptimizedUrl env public_id))"
  proof (cases rule: sendBatchMessages_media_step [where env = env and req = req])
    case stopped
    then show ?thesis by simp
  next
    case (media_error upl es error)
    from media_error(2) have "es = [Upload_call (buffer f)]"
      using resolve_media_Buffer [of env "buffer f" es "Inl error"]
      by (simp add: sel [OF media_error(1)])
    then show ?thesis using media_error(3-5) by simp
  next
    case (records_created upl es url clientId)
    from records_created(2) have "es = [Upload_call (buffer f)]"
      and "\<exists>public_id. uploadToCloudinary env (buffer f) = Inr public_id \<and>
                   url = Some (getOptimizedUrl env public_id)"
      using resolve_media_Buffer [of env "buffer f" es "Inr url"]
      by (simp_all add: sel [OF records_created(1)])
    then show ?thesis using records_created(3-5)
      by (auto simp: createMessages_def)
  qed
  from same rest show ?thesis by simp
qed

theorem C10_file_before_url_witness:
  "req_media_part both_request = Some png_part \<and>
   body_mediaUrl both_request = Some (js ''http://x/a.png'') \<and>
   sendBatchMessages demo_env both_request =
     sendBatchMessages demo_env (both_request\<lparr>body_mediaUrl := None\<rparr>) \<and>
   fetch_calls (trace (sendBatchMessages demo_env both_request)) = [] \<and>
   hd (upload_calls (trace (sendBatchMessages demo_env both_request)))
     \<in> set (upload_calls (trace (sendBatchMessages demo_env both_request))) \<and>
   hd (upload_calls (trace (sendBatchMessages demo_env both_request))) = buffer png_part \<and>
   hd (created (trace (sendBatchMessages demo_env both_request)))
     \<in> set (created (trace (sendBatchMessages demo_env both_request))) \<and>
   (\<exists>public_id.
      uploadToCloudinary demo_env (buffer png_part) = Inr public_id \<and>
      msg_mediaUrl (hd (created (trace (sendBatchMessages demo_env both_request)))) =
        Some (getOptimizedUrl demo_env public_id))"
proof -
  have h1: "req_media_part both_request = Some png_part"
    by code_simp
  have h2: "body_mediaUrl both_request = Some (js ''http://x/a.png'')"
    by code_simp
  have u: "hd (upload_calls (trace (sendBatchMessages demo_env both_request)))
     \<in> set (upload_calls (trace (sendBatchMessages demo_env both_request)))"
    by (simp add: sendBatchMessages_both_request dispatch_projections)
  have m: "hd (created (trace (sendBatchMessages demo_env both_request)))
     \<in> set (created (trace (sendBatchMessages demo_env both_request)))"
    by (simp add: sendBatchMessages_both_request dispatch_projections createMessages_def js_def)
  note t = C10_file_before_url [OF h1 h2, of demo_env]
  show ?thesis
    by (intro conjI h1 h2 u m t [THEN conjunct1] t [THEN conjunct2, THEN conjunct1]
          t [THEN conjunct2, THEN conjunct2, THEN conjunct1, THEN bspec, OF u]
          t [THEN conjunct2, THEN conjunct2, THEN conjunct2, THEN bspec, OF m])
qed

end
